theory Spec2Isabelle
  imports Main "HOL-Library.AList"
begin

section \<open>The datastore of core/platform/auth/gae\_auth\_services.py\<close>

text \<open>
  The module keeps two kinds of entities. \<open>UserIdentifiersModel\<close> is keyed by the
  auth ID and holds the user ID; \<open>UserAuthDetailsModel\<close> is keyed by the user ID and
  holds the auth ID. A kind is an association list from entity ID to entity; the first
  entry of a key is the stored one.
\<close>

text \<open>
  Modelled from the spec: the fields of the two model classes and of their base class,
  missing from the source tree. Every entity has a deletion flag; the auth ID held for a
  user (\<open>gae_id\<close>) is nullable, and \<open>parent_user_id\<close> is the field the source names
  as used by other services. The creation and update timestamps are wall-clock readings
  and are not part of the records.
\<close>

record base_model =
  deleted :: bool

record user_identifiers_model = base_model +
  user_id :: string

record user_auth_details_model = base_model +
  gae_id :: "string option"
  parent_user_id :: "string option"

record datastore =
  user_identifiers :: "(string \<times> user_identifiers_model) list"
  user_auth_details :: "(string \<times> user_auth_details_model) list"

text \<open>
  The exceptions of the module. The source raises \<open>Exception\<close> with a message formatted
  from the colliding IDs; the constructor carries the values the message is formatted
  from, in the message's order. \<open>ValueError\<close> is the failed unpacking of
  \<open>auth_ids, user_ids = ZIP(*pairs)\<close>, \<open>TypeError\<close> a call of \<open>add_header\<close> with a
  single positional argument, and \<open>NullKeyError\<close> the exception of the storage layer
  for a lookup with a null ID.
\<close>

datatype error =
    AuthIdAlreadyAssociated string string
  | UserIdAlreadyAssociated string string
  | AuthIdsAlreadyAssociated "(string \<times> string) list"
  | UserIdsAlreadyAssociated "(string \<times> string) list"
  | ValueError
  | TypeError
  | NullKeyError

subsection \<open>The storage layer\<close>

text \<open>
  The model classes of \<open>core.storage.auth\<close> and their base class are not in the source
  tree; the module uses the accessors below.
\<close>

text \<open>
  Modelled from the spec: \<open>get_by_id\<close> of the base model class, missing from the source
  tree. It reads the entity stored under a key, tombstoned or not.
\<close>

definition get_by_id :: "(string \<times> 'm) list \<Rightarrow> string \<Rightarrow> 'm option" where
  "get_by_id kind k = map_of kind k"

text \<open>
  Modelled from the spec: \<open>get(id, strict=False)\<close> of the base model class, missing
  from the source tree. It returns \<open>None\<close> for a missing entity and hides a tombstoned
  one: after deletion the lookup by user ID returns absent, and the lookup by auth ID
  may return deleted mappings "unlike the reverse lookup".
\<close>

definition get :: "(string \<times> 'a base_model_scheme) list \<Rightarrow> string \<Rightarrow> 'a base_model_scheme option" where
  "get kind k =
     (case get_by_id kind k of
        None \<Rightarrow> None
      | Some m \<Rightarrow> if deleted m then None else Some m)"

text \<open>
  Modelled from the spec: \<open>get_multi(ids, include_deleted=False)\<close> of the base model
  class, missing from the source tree. The batched variant preserves the input order
  and fills \<open>None\<close> per missing element; tombstoned entities are returned only when
  \<open>include_deleted\<close> is passed as true.
\<close>

definition get_multi ::
  "(string \<times> 'a base_model_scheme) list \<Rightarrow> string list \<Rightarrow> bool \<Rightarrow> 'a base_model_scheme option list" where
  "get_multi kind ks include_deleted =
     map (\<lambda>k. case get_by_id kind k of
                 None \<Rightarrow> None
               | Some m \<Rightarrow> if deleted m \<and> \<not> include_deleted then None else Some m) ks"

text \<open>
  Modelled from the spec: \<open>UserIdentifiersModel.get_by_gae_id\<close>, missing from the source
  tree. It reads the entity keyed by the auth ID and tolerates tombstoned entities.
\<close>

definition get_by_gae_id :: "(string \<times> user_identifiers_model) list \<Rightarrow> string \<Rightarrow> user_identifiers_model option" where
  "get_by_gae_id kind g = get_by_id kind g"

text \<open>
  Modelled from the spec: \<open>UserIdentifiersModel.get_by_user_id\<close>, missing from the
  source tree. It is the reverse query on the user ID field and returns one stored
  entity that holds the user ID, tombstoned or not, with its key; which one, when there
  are several, is up to the storage system, and here it is the first in store order.
\<close>

definition get_by_user_id ::
  "(string \<times> user_identifiers_model) list \<Rightarrow> string \<Rightarrow> (string \<times> user_identifiers_model) option" where
  "get_by_user_id kind u = List.find (\<lambda>(k, m). user_id m = u) (AList.clearjunk kind)"

text \<open>
  Modelled from the spec: \<open>put\<close> of the base model class, missing from the source tree.
  It writes the entity under its key, replacing the entity stored there.
\<close>

definition put :: "(string \<times> 'm) list \<Rightarrow> string \<times> 'm \<Rightarrow> (string \<times> 'm) list" where
  "put kind e = AList.update (fst e) (snd e) kind"

text \<open>
  Modelled from the spec: \<open>put_multi\<close> of the base model class, missing from the source
  tree. It writes the entities of a list in the order of the list.
\<close>

definition put_multi :: "(string \<times> 'm) list \<Rightarrow> (string \<times> 'm) list \<Rightarrow> (string \<times> 'm) list" where
  "put_multi kind es = fold (\<lambda>e t. put t e) es kind"

text \<open>
  Modelled from the spec: \<open>update_timestamps\<close> of the base model class, missing from the
  source tree. It refreshes the creation and update timestamps, which the records here
  do not carry, and touches no other field.
\<close>

definition update_timestamps :: "string \<times> 'm \<Rightarrow> string \<times> 'm" where
  "update_timestamps e = e"

text \<open>
  Modelled from the spec: \<open>update_timestamps_multi\<close> of the base model class, missing
  from the source tree; \<open>update_timestamps\<close> on each entity of a list.
\<close>

definition update_timestamps_multi :: "(string \<times> 'm) list \<Rightarrow> (string \<times> 'm) list" where
  "update_timestamps_multi es = map update_timestamps es"

text \<open>
  Modelled from the spec: the constructor of \<open>UserIdentifiersModel\<close>, missing from the
  source tree. The entity is keyed by the auth ID; the deletion flag defaults to false.
\<close>

definition UserIdentifiersModel :: "string \<Rightarrow> string \<Rightarrow> string \<times> user_identifiers_model" where
  "UserIdentifiersModel aid uid = (aid, \<lparr>deleted = False, user_id = uid\<rparr>)"

text \<open>
  Modelled from the spec: the constructor of \<open>UserAuthDetailsModel\<close>, missing from the
  source tree. The entity is keyed by the user ID; the deletion flag defaults to false
  and \<open>parent_user_id\<close> to null.
\<close>

definition UserAuthDetailsModel :: "string \<Rightarrow> string \<Rightarrow> string \<times> user_auth_details_model" where
  "UserAuthDetailsModel uid aid =
     (uid, \<lparr>deleted = False, gae_id = Some aid, parent_user_id = None\<rparr>)"

subsection \<open>Lookups\<close>

definition get_auth_id_from_user_id :: "datastore \<Rightarrow> string \<Rightarrow> string option" where
  "get_auth_id_from_user_id s uid =
     (case get (user_auth_details s) uid of
        None \<Rightarrow> None
      | Some assoc_by_user_id_model \<Rightarrow> gae_id assoc_by_user_id_model)"

definition get_multi_auth_ids_from_user_ids :: "datastore \<Rightarrow> string list \<Rightarrow> string option list" where
  "get_multi_auth_ids_from_user_ids s user_ids =
     map (\<lambda>model. case model of None \<Rightarrow> None | Some m \<Rightarrow> gae_id m)
       (get_multi (user_auth_details s) user_ids False)"

definition get_user_id_from_auth_id :: "datastore \<Rightarrow> string \<Rightarrow> string option" where
  "get_user_id_from_auth_id s aid =
     (case get_by_gae_id (user_identifiers s) aid of
        None \<Rightarrow> None
      | Some assoc_by_auth_id_model \<Rightarrow> Some (user_id assoc_by_auth_id_model))"

definition get_multi_user_ids_from_auth_ids :: "datastore \<Rightarrow> string list \<Rightarrow> string option list" where
  "get_multi_user_ids_from_auth_ids s auth_ids =
     map (\<lambda>m. case m of None \<Rightarrow> None | Some m \<Rightarrow> Some (user_id m))
       (get_multi (user_identifiers s) auth_ids True)"

subsection \<open>Deletion\<close>

text \<open>
  Modelled from the spec: \<open>get(id, strict=False)\<close> of the base model class called with
  an ID that may be null, as lines 107-108 of the source pass the nullable \<open>gae_id\<close>;
  missing from the source tree. The spec does not say what a null ID gives: a null ID is
  no key of the storage system and the call raises. For an ID that is not null it is
  \<open>get\<close>, the entity returned with its key.
\<close>

definition get_nullable ::
  "(string \<times> 'a base_model_scheme) list \<Rightarrow> string option
     \<Rightarrow> error + (string \<times> 'a base_model_scheme) option" where
  "get_nullable kind k =
     (case k of
        None \<Rightarrow> Inl NullKeyError
      | Some i \<Rightarrow> Inr (map_option (Pair i) (get kind i)))"

text \<open>
  \<open>mark_user_for_deletion\<close> returns the exception, if any, and the datastore as it is
  when the operation ends: the user's model is written before the second lookup, so an
  exception of that lookup leaves the user's model tombstoned.
\<close>

definition mark_user_for_deletion :: "datastore \<Rightarrow> string \<Rightarrow> error option \<times> datastore" where
  "mark_user_for_deletion s uid =
     (let assoc_by_user_id_model = get (user_auth_details s) uid;
          s1 = (case assoc_by_user_id_model of
                  None \<Rightarrow> s
                | Some m \<Rightarrow>
                    s\<lparr>user_auth_details :=
                        put (user_auth_details s)
                          (update_timestamps (uid, m\<lparr>deleted := True\<rparr>))\<rparr>);
          assoc_by_auth_id_model =
            (case assoc_by_user_id_model of
               None \<Rightarrow> Inr (get_by_user_id (user_identifiers s1) uid)
             | Some m \<Rightarrow> get_nullable (user_identifiers s1) (gae_id m))
      in case assoc_by_auth_id_model of
           Inl e \<Rightarrow> (Some e, s1)
         | Inr None \<Rightarrow> (None, s1)
         | Inr (Some (k, m)) \<Rightarrow>
             (None,
              s1\<lparr>user_identifiers :=
                   put (user_identifiers s1)
                     (update_timestamps (k, m\<lparr>deleted := True\<rparr>))\<rparr>))"

subsection \<open>Association\<close>

text \<open>
  An operation that can raise returns the exception, if any, and the datastore as it is
  when the operation ends: an exception does not undo a write made before it.
\<close>

definition associate_auth_id_with_user_id ::
  "datastore \<Rightarrow> string \<times> string \<Rightarrow> error option \<times> datastore" where
  "associate_auth_id_with_user_id s auth_id_user_id_pair =
     (let aid = fst auth_id_user_id_pair; uid = snd auth_id_user_id_pair in
      case get_user_id_from_auth_id s aid of
        Some user_id_collision \<Rightarrow> (Some (AuthIdAlreadyAssociated aid user_id_collision), s)
      | None \<Rightarrow>
         (case get_auth_id_from_user_id s uid of
            Some auth_id_collision \<Rightarrow> (Some (UserIdAlreadyAssociated uid auth_id_collision), s)
          | None \<Rightarrow>
             (let s1 = s\<lparr>user_identifiers :=
                          put (user_identifiers s)
                            (update_timestamps (UserIdentifiersModel aid uid))\<rparr>;
                  assoc_by_user_id_model = get (user_auth_details s1) uid
              in if assoc_by_user_id_model = None
                    \<or> gae_id (the assoc_by_user_id_model) = None
                 then (None,
                       s1\<lparr>user_auth_details :=
                            put (user_auth_details s1)
                              (update_timestamps (UserAuthDetailsModel uid aid))\<rparr>)
                 else (None, s1))))"

text \<open>The pairs of a key list and a collision list whose collision is not \<open>None\<close>.\<close>

definition collisions :: "string list \<Rightarrow> string option list \<Rightarrow> (string \<times> string) list" where
  "collisions ks cs = List.map_filter (\<lambda>(k, c). map_option (Pair k) c) (zip ks cs)"

definition associate_multi_auth_ids_with_user_ids ::
  "datastore \<Rightarrow> (string \<times> string) list \<Rightarrow> error option \<times> datastore" where
  "associate_multi_auth_ids_with_user_ids s auth_id_user_id_pairs =
     (if auth_id_user_id_pairs = [] then (Some ValueError, s)
      else
       let auth_ids = map fst auth_id_user_id_pairs;
           user_ids = map snd auth_id_user_id_pairs;
           user_id_collisions = get_multi_user_ids_from_auth_ids s auth_ids
       in if list_ex (\<lambda>c. c \<noteq> None) user_id_collisions
          then (Some (AuthIdsAlreadyAssociated (collisions auth_ids user_id_collisions)), s)
          else
           let auth_id_collisions = get_multi_auth_ids_from_user_ids s user_ids
           in if list_ex (\<lambda>c. c \<noteq> None) auth_id_collisions
              then (Some (UserIdsAlreadyAssociated (collisions user_ids auth_id_collisions)), s)
              else
               let assoc_by_auth_id_models =
                     map (\<lambda>(aid, uid). UserIdentifiersModel aid uid) (zip auth_ids user_ids);
                   s1 = s\<lparr>user_identifiers :=
                           put_multi (user_identifiers s)
                             (update_timestamps_multi assoc_by_auth_id_models)\<rparr>;
                   assoc_by_user_id_models =
                     map (\<lambda>(aid, uid, m). UserAuthDetailsModel uid aid)
                       (filter (\<lambda>(aid, uid, m). m = None \<or> gae_id (the m) = None)
                          (zip auth_ids
                             (zip user_ids (get_multi (user_auth_details s1) user_ids False))))
               in if assoc_by_user_id_models \<noteq> []
                  then (None,
                        s1\<lparr>user_auth_details :=
                             put_multi (user_auth_details s1)
                               (update_timestamps_multi assoc_by_user_id_models)\<rparr>)
                  else (None, s1))"

text \<open>N calls of \<open>associate_auth_id_with_user_id\<close> in a row; the first exception ends the run.\<close>

fun associate_each :: "datastore \<Rightarrow> (string \<times> string) list \<Rightarrow> error option \<times> datastore" where
  "associate_each s [] = (None, s)"
| "associate_each s (p # ps) =
     (case associate_auth_id_with_user_id s p of
        (Some e, s') \<Rightarrow> (Some e, s')
      | (None, s') \<Rightarrow> associate_each s' ps)"

subsection \<open>Collisions\<close>

text \<open>
  A pair collides with the datastore when its auth ID or its user ID is already
  associated, the condition under which the single association raises. An exception of
  the batch lists a pair when the pair's key is among the keys of the exception.
\<close>

definition collides :: "datastore \<Rightarrow> string \<times> string \<Rightarrow> bool" where
  "collides s p =
     (get_user_id_from_auth_id s (fst p) \<noteq> None \<or> get_auth_id_from_user_id s (snd p) \<noteq> None)"

fun lists_pair :: "error \<Rightarrow> string \<times> string \<Rightarrow> bool" where
  "lists_pair (AuthIdsAlreadyAssociated l) p = (fst p \<in> set (map fst l))"
| "lists_pair (UserIdsAlreadyAssociated l) p = (snd p \<in> set (map fst l))"
| "lists_pair _ p = False"

subsection \<open>Session cookies\<close>

text \<open>
  A \<open>datetime\<close> is a count of microseconds and \<open>timedelta\<close> the length of a number of
  days. \<open>strftime\<close> belongs to the standard library and is a parameter; the clock is a
  parameter too, \<open>utcnow k\<close> being the reading of the \<open>k\<close>-th call of
  \<open>datetime.datetime.utcnow()\<close> during the operation.

  \<open>cookie_output\<close> is \<open>SimpleCookie.output()\<close> for a cookie of one morsel whose value
  needs no quoting and whose only attribute is \<open>expires\<close>. \<open>split_1\<close> is
  \<open>str.split(sep, 1)\<close> for a separator that is not empty, and \<open>add_header\<close> with
  the list unpacked into its arguments appends the header to the response.
\<close>

type_synonym datetime = int

definition timedelta :: "int \<Rightarrow> int" where
  "timedelta days = days * 86400000000"

record response =
  headers :: "(string \<times> string) list"

definition cookie_output :: "string \<Rightarrow> string \<Rightarrow> string \<Rightarrow> string" where
  "cookie_output name val expires = ''Set-Cookie: '' @ name @ ''='' @ val @ ''; expires='' @ expires"

fun split_first :: "string \<Rightarrow> string \<Rightarrow> (string \<times> string) option" where
  "split_first sep [] = None"
| "split_first sep (c # cs) =
     (if take (length sep) (c # cs) = sep then Some ([], drop (length sep) (c # cs))
      else map_option (\<lambda>(b, a). (c # b, a)) (split_first sep cs))"

definition split_1 :: "string \<Rightarrow> string \<Rightarrow> string list" where
  "split_1 sep str = (case split_first sep str of None \<Rightarrow> [str] | Some (b, a) \<Rightarrow> [b, a])"

definition add_header :: "response \<Rightarrow> string list \<Rightarrow> error option \<times> response" where
  "add_header r args =
     (case args of
        [name, val] \<Rightarrow> (None, r\<lparr>headers := headers r @ [(name, val)]\<rparr>)
      | _ \<Rightarrow> (Some TypeError, r))"

fun clear_cookies ::
  "(datetime \<Rightarrow> string \<Rightarrow> string) \<Rightarrow> (nat \<Rightarrow> datetime) \<Rightarrow> nat \<Rightarrow> string list \<Rightarrow> response
     \<Rightarrow> error option \<times> response" where
  "clear_cookies strftime utcnow k [] r = (None, r)"
| "clear_cookies strftime utcnow k (cookie_name # rest) r =
     (let expires = strftime (utcnow k - timedelta 1) ''%a, %d %b %Y %H:%M:%S GMT'';
          cookie = cookie_output cookie_name [] expires
      in case add_header r (split_1 '': '' cookie) of
           (Some e, r') \<Rightarrow> (Some e, r')
         | (None, r') \<Rightarrow> clear_cookies strftime utcnow (Suc k) rest r')"

definition destroy_auth_session ::
  "(datetime \<Rightarrow> string \<Rightarrow> string) \<Rightarrow> (nat \<Rightarrow> datetime) \<Rightarrow> response \<Rightarrow> error option \<times> response" where
  "destroy_auth_session strftime utcnow r =
     clear_cookies strftime utcnow 0 [''ACSID'', ''SACSID'', ''dev_appserver_login''] r"

subsection \<open>Example datastores\<close>

definition empty_datastore :: datastore where
  "empty_datastore = \<lparr>user_identifiers = [], user_auth_details = []\<rparr>"

definition one_pair :: datastore where
  "one_pair =
     \<lparr>user_identifiers = [(''a1'', \<lparr>deleted = False, user_id = ''u1''\<rparr>)],
      user_auth_details =
        [(''u1'', \<lparr>deleted = False, gae_id = Some ''a1'', parent_user_id = None\<rparr>)]\<rparr>"

definition user_side_only :: datastore where
  "user_side_only =
     \<lparr>user_identifiers = [],
      user_auth_details =
        [(''u1'', \<lparr>deleted = False, gae_id = None, parent_user_id = Some ''p1''\<rparr>)]\<rparr>"

definition two_collisions :: datastore where
  "two_collisions =
     \<lparr>user_identifiers = [(''a1'', \<lparr>deleted = False, user_id = ''u9''\<rparr>)],
      user_auth_details =
        [(''u2'', \<lparr>deleted = False, gae_id = Some ''a9'', parent_user_id = None\<rparr>)]\<rparr>"

definition two_auth :: datastore where
  "two_auth =
     \<lparr>user_identifiers =
        [(''a1'', \<lparr>deleted = False, user_id = ''u1''\<rparr>),
         (''a2'', \<lparr>deleted = False, user_id = ''u1''\<rparr>)],
      user_auth_details = []\<rparr>"

definition three_for_one :: datastore where
  "three_for_one =
     \<lparr>user_identifiers =
        [(''a1'', \<lparr>deleted = False, user_id = ''u1''\<rparr>),
         (''a2'', \<lparr>deleted = False, user_id = ''u1''\<rparr>),
         (''a3'', \<lparr>deleted = False, user_id = ''u1''\<rparr>)],
      user_auth_details =
        [(''u1'', \<lparr>deleted = False, gae_id = Some ''a3'', parent_user_id = None\<rparr>)]\<rparr>"

definition three_for_one_marked :: datastore where
  "three_for_one_marked =
     \<lparr>user_identifiers =
        [(''a1'', \<lparr>deleted = False, user_id = ''u1''\<rparr>),
         (''a2'', \<lparr>deleted = False, user_id = ''u1''\<rparr>),
         (''a3'', \<lparr>deleted = True, user_id = ''u1''\<rparr>)],
      user_auth_details =
        [(''u1'', \<lparr>deleted = True, gae_id = Some ''a3'', parent_user_id = None\<rparr>)]\<rparr>"

definition shared_user :: datastore where
  "shared_user =
     \<lparr>user_identifiers =
        [(''a1'', \<lparr>deleted = False, user_id = ''u1''\<rparr>),
         (''a2'', \<lparr>deleted = False, user_id = ''u1''\<rparr>)],
      user_auth_details =
        [(''u1'', \<lparr>deleted = False, gae_id = Some ''a2'', parent_user_id = None\<rparr>)]\<rparr>"

definition shared_user_marked :: datastore where
  "shared_user_marked =
     \<lparr>user_identifiers =
        [(''a1'', \<lparr>deleted = False, user_id = ''u1''\<rparr>),
         (''a2'', \<lparr>deleted = True, user_id = ''u1''\<rparr>)],
      user_auth_details =
        [(''u1'', \<lparr>deleted = True, gae_id = Some ''a2'', parent_user_id = None\<rparr>)]\<rparr>"

definition shared_user_marked_twice :: datastore where
  "shared_user_marked_twice =
     \<lparr>user_identifiers =
        [(''a1'', \<lparr>deleted = True, user_id = ''u1''\<rparr>),
         (''a2'', \<lparr>deleted = True, user_id = ''u1''\<rparr>)],
      user_auth_details =
        [(''u1'', \<lparr>deleted = True, gae_id = Some ''a2'', parent_user_id = None\<rparr>)]\<rparr>"

section \<open>Facts about the storage layer\<close>

lemma get_by_id_put:
  "get_by_id (put kind e) k = (if k = fst e then Some (snd e) else get_by_id kind k)"
  by (simp add: get_by_id_def put_def update_conv')

lemma get_put:
  "get (put kind e) k =
     (if k = fst e then (if deleted (snd e) then None else Some (snd e)) else get kind k)"
  by (simp add: get_def get_by_id_put)

lemma put_same: "get_by_id kind k = Some m \<Longrightarrow> put kind (k, m) = kind"
  by (simp add: get_by_id_def put_def update_triv)

lemma get_multi_map:
  "get_multi kind ks False = map (get kind) ks"
  "get_multi kind ks True = map (get_by_id kind) ks"
  by (auto simp: get_multi_def get_def split: option.splits)

lemma get_by_user_id_Some:
  assumes "get_by_user_id kind u = Some (k, m)"
  shows "get_by_id kind k = Some m \<and> user_id m = u"
proof -
  from assms have "(k, m) \<in> set (AList.clearjunk kind)" and "user_id m = u"
    by (auto simp: get_by_user_id_def find_Some_iff in_set_conv_nth)
  moreover have "map_of (AList.clearjunk kind) k = Some m"
    using calculation(1) by (simp add: map_of_eq_Some_iff)
  ultimately show ?thesis
    by (simp add: get_by_id_def map_of_clearjunk)
qed

lemma get_by_user_id_None:
  assumes "get_by_user_id kind u = None" "get_by_id kind k = Some m"
  shows "user_id m \<noteq> u"
proof -
  have "map_of (AList.clearjunk kind) k = Some m"
    using assms(2) by (simp add: get_by_id_def map_of_clearjunk)
  then have "(k, m) \<in> set (AList.clearjunk kind)"
    by (rule map_of_SomeD)
  with assms(1) show ?thesis
    by (auto simp: get_by_user_id_def find_None_iff)
qed

section \<open>Single association\<close>

lemma assoc_success:
  assumes "get_user_id_from_auth_id s aid = None" "get_auth_id_from_user_id s uid = None"
  shows "associate_auth_id_with_user_id s (aid, uid) =
    (None, s\<lparr>user_identifiers := put (user_identifiers s) (UserIdentifiersModel aid uid),
             user_auth_details := put (user_auth_details s) (UserAuthDetailsModel uid aid)\<rparr>)"
  using assms
  by (auto simp: associate_auth_id_with_user_id_def Let_def update_timestamps_def
      get_auth_id_from_user_id_def split: option.splits)

lemma assoc_success_iff:
  "fst (associate_auth_id_with_user_id s (aid, uid)) = None \<longleftrightarrow>
     get_user_id_from_auth_id s aid = None \<and> get_auth_id_from_user_id s uid = None"
  by (auto simp: associate_auth_id_with_user_id_def Let_def split: option.splits)

lemmas lookup_defs =
  get_user_id_from_auth_id_def get_auth_id_from_user_id_def get_by_gae_id_def
  get_by_id_def get_def

lemmas write_defs =
  put_def update_timestamps_def UserIdentifiersModel_def UserAuthDetailsModel_def

text \<open>
  C1. When neither the auth ID nor the user ID is associated, the association succeeds,
  and in the datastore it leaves the lookup of the auth ID gives the user ID and the
  lookup of the user ID gives the auth ID.
\<close>

theorem associate_then_lookup:
  assumes "get_user_id_from_auth_id s aid = None"
    and "get_auth_id_from_user_id s uid = None"
  shows "\<exists>s'. associate_auth_id_with_user_id s (aid, uid) = (None, s')
          \<and> get_user_id_from_auth_id s' aid = Some uid
          \<and> get_auth_id_from_user_id s' uid = Some aid"
  using assms
  by (simp add: assoc_success get_user_id_from_auth_id_def get_auth_id_from_user_id_def
      get_by_gae_id_def get_by_id_put get_put UserIdentifiersModel_def UserAuthDetailsModel_def)

theorem associate_then_lookup_witness:
  "get_user_id_from_auth_id empty_datastore ''a1'' = None
   \<and> get_auth_id_from_user_id empty_datastore ''u1'' = None
   \<and> (\<exists>s'. associate_auth_id_with_user_id empty_datastore (''a1'', ''u1'') = (None, s')
          \<and> get_user_id_from_auth_id s' ''a1'' = Some ''u1''
          \<and> get_auth_id_from_user_id s' ''u1'' = Some ''a1'')"
proof -
  have h1: "get_user_id_from_auth_id empty_datastore ''a1'' = None"
    by (simp add: empty_datastore_def lookup_defs)
  have h2: "get_auth_id_from_user_id empty_datastore ''u1'' = None"
    by (simp add: empty_datastore_def lookup_defs)
  show ?thesis
    using h1 h2 associate_then_lookup [OF h1 h2] by simp
qed

text \<open>
  C5. The association raises when the auth ID is already associated, naming the auth ID
  and its user ID; otherwise it raises when the user ID is already associated, naming the
  user ID and its auth ID. In both cases nothing is written. A second association of a
  pair that has just been associated raises the first of the two exceptions.
\<close>

theorem associate_collision:
  "(get_user_id_from_auth_id s aid = Some u'
      \<longrightarrow> associate_auth_id_with_user_id s (aid, uid) = (Some (AuthIdAlreadyAssociated aid u'), s))
   \<and> (get_user_id_from_auth_id s aid = None \<and> get_auth_id_from_user_id s uid = Some a'
      \<longrightarrow> associate_auth_id_with_user_id s (aid, uid) = (Some (UserIdAlreadyAssociated uid a'), s))
   \<and> (associate_auth_id_with_user_id s (aid, uid) = (None, s')
      \<longrightarrow> associate_auth_id_with_user_id s' (aid, uid) = (Some (AuthIdAlreadyAssociated aid uid), s'))"
proof (intro conjI impI)
  assume "get_user_id_from_auth_id s aid = Some u'"
  then show "associate_auth_id_with_user_id s (aid, uid) = (Some (AuthIdAlreadyAssociated aid u'), s)"
    by (simp add: associate_auth_id_with_user_id_def)
next
  assume "get_user_id_from_auth_id s aid = None \<and> get_auth_id_from_user_id s uid = Some a'"
  then show "associate_auth_id_with_user_id s (aid, uid) = (Some (UserIdAlreadyAssociated uid a'), s)"
    by (simp add: associate_auth_id_with_user_id_def)
next
  assume ok: "associate_auth_id_with_user_id s (aid, uid) = (None, s')"
  then have pre: "get_user_id_from_auth_id s aid = None" "get_auth_id_from_user_id s uid = None"
    using assoc_success_iff [of s aid uid] by simp_all
  from assoc_success [OF pre] ok
  have "get_user_id_from_auth_id s' aid = Some uid"
    by (auto simp: get_user_id_from_auth_id_def get_by_gae_id_def get_by_id_put
        UserIdentifiersModel_def)
  then show "associate_auth_id_with_user_id s' (aid, uid) = (Some (AuthIdAlreadyAssociated aid uid), s')"
    by (simp add: associate_auth_id_with_user_id_def)
qed

theorem associate_collision_witness:
  "get_user_id_from_auth_id one_pair ''a1'' = Some ''u1''
   \<and> associate_auth_id_with_user_id one_pair (''a1'', ''u2'')
       = (Some (AuthIdAlreadyAssociated ''a1'' ''u1''), one_pair)
   \<and> get_user_id_from_auth_id one_pair ''a2'' = None
   \<and> get_auth_id_from_user_id one_pair ''u1'' = Some ''a1''
   \<and> associate_auth_id_with_user_id one_pair (''a2'', ''u1'')
       = (Some (UserIdAlreadyAssociated ''u1'' ''a1''), one_pair)
   \<and> associate_auth_id_with_user_id empty_datastore (''a1'', ''u1'') = (None, one_pair)
   \<and> associate_auth_id_with_user_id one_pair (''a1'', ''u1'')
       = (Some (AuthIdAlreadyAssociated ''a1'' ''u1''), one_pair)"
proof -
  have h1: "get_user_id_from_auth_id one_pair ''a1'' = Some ''u1''"
    by (simp add: one_pair_def lookup_defs)
  have h2: "get_user_id_from_auth_id one_pair ''a2'' = None
            \<and> get_auth_id_from_user_id one_pair ''u1'' = Some ''a1''"
    by (simp add: one_pair_def lookup_defs)
  have h3: "associate_auth_id_with_user_id empty_datastore (''a1'', ''u1'') = (None, one_pair)"
    by (simp add: associate_auth_id_with_user_id_def Let_def empty_datastore_def one_pair_def
        lookup_defs write_defs)
  show ?thesis
    using h1 h2 h3
      associate_collision [of one_pair "''a1''" "''u1''" "''u2''" "''a1''" one_pair]
      associate_collision [of one_pair "''a2''" "''u1''" "''u1''" "''a1''" one_pair]
      associate_collision [of empty_datastore "''a1''" "''u1''" "''u1''" "''a1''" one_pair]
    by simp
qed

section \<open>Deletion\<close>

text \<open>
  C2. For an associated pair, marking the user for deletion raises nothing; afterwards
  the lookup of the user ID gives nothing, the lookup of the auth ID still gives the
  user ID, and the entity read by that lookup is tombstoned.
\<close>

theorem deletion_asymmetry:
  assumes "get_auth_id_from_user_id s uid = Some aid"
    and "get_user_id_from_auth_id s aid = Some uid"
  shows "fst (mark_user_for_deletion s uid) = None
       \<and> get_auth_id_from_user_id (snd (mark_user_for_deletion s uid)) uid = None
       \<and> get_user_id_from_auth_id (snd (mark_user_for_deletion s uid)) aid = Some uid
       \<and> (\<exists>m. get_by_id (user_identifiers (snd (mark_user_for_deletion s uid))) aid = Some m
              \<and> deleted m)"
proof -
  from assms(1) obtain r where r: "get (user_auth_details s) uid = Some r" "gae_id r = Some aid"
    by (auto simp: get_auth_id_from_user_id_def split: option.splits)
  from assms(2) obtain m where m: "get_by_id (user_identifiers s) aid = Some m" "user_id m = uid"
    by (auto simp: get_user_id_from_auth_id_def get_by_gae_id_def split: option.splits)
  show ?thesis
  proof (cases "deleted m")
    case True
    with r m show ?thesis
      by (simp add: mark_user_for_deletion_def get_nullable_def Let_def update_timestamps_def
          get_def get_auth_id_from_user_id_def get_user_id_from_auth_id_def get_by_gae_id_def
          get_by_id_put)
  next
    case False
    with r m show ?thesis
      by (simp add: mark_user_for_deletion_def get_nullable_def Let_def update_timestamps_def
          get_def get_auth_id_from_user_id_def get_user_id_from_auth_id_def get_by_gae_id_def
          get_by_id_put)
  qed
qed

theorem deletion_asymmetry_witness:
  "get_auth_id_from_user_id one_pair ''u1'' = Some ''a1''
   \<and> get_user_id_from_auth_id one_pair ''a1'' = Some ''u1''
   \<and> fst (mark_user_for_deletion one_pair ''u1'') = None
   \<and> get_auth_id_from_user_id (snd (mark_user_for_deletion one_pair ''u1'')) ''u1'' = None
   \<and> get_user_id_from_auth_id (snd (mark_user_for_deletion one_pair ''u1'')) ''a1'' = Some ''u1''"
proof -
  have h1: "get_auth_id_from_user_id one_pair ''u1'' = Some ''a1''"
    by (simp add: one_pair_def lookup_defs)
  have h2: "get_user_id_from_auth_id one_pair ''a1'' = Some ''u1''"
    by (simp add: one_pair_def lookup_defs)
  show ?thesis
    using h1 h2 deletion_asymmetry [OF h1 h2] by simp
qed

text \<open>
  What the reverse-query branch does: when the lookup of the user's own model finds
  nothing and some entity keyed by an auth ID holds the user ID, the operation raises
  nothing, the reverse query returns one entity holding the user ID, and that entity is
  stored tombstoned and otherwise as it was. It is one entity for each call.
\<close>

lemma reverse_query_tombstones_found:
  assumes "get (user_auth_details s) uid = None"
    and "get_by_id (user_identifiers s) aid = Some m"
    and "user_id m = uid"
  shows "\<exists>k r. get_by_user_id (user_identifiers s) uid = Some (k, r)
           \<and> user_id r = uid
           \<and> mark_user_for_deletion s uid
               = (None, s\<lparr>user_identifiers := put (user_identifiers s) (k, r\<lparr>deleted := True\<rparr>)\<rparr>)"
proof (cases "get_by_user_id (user_identifiers s) uid")
  case None
  from get_by_user_id_None [OF None assms(2)] assms(3) show ?thesis by simp
next
  case (Some e)
  obtain k r where e: "e = (k, r)" by (cases e)
  from get_by_user_id_Some [of "user_identifiers s" uid k r] Some e
  have kr: "get_by_id (user_identifiers s) k = Some r" "user_id r = uid" by simp_all
  have "mark_user_for_deletion s uid
          = (None, s\<lparr>user_identifiers := put (user_identifiers s) (k, r\<lparr>deleted := True\<rparr>)\<rparr>)"
    using assms(1) Some e
    by (simp add: mark_user_for_deletion_def Let_def update_timestamps_def)
  with Some e kr show ?thesis by auto
qed

section \<open>Batched lookups\<close>

text \<open>
  C8. Each batched lookup returns, position by position, what the single lookup
  returns for the key at that position: the list has the length and the order of the
  input, with \<open>None\<close> exactly where the single lookup finds no association. The batched
  lookups are total: no input makes them raise.
\<close>

theorem batched_lookups:
  "get_multi_auth_ids_from_user_ids s user_ids = map (get_auth_id_from_user_id s) user_ids
   \<and> get_multi_user_ids_from_auth_ids s auth_ids = map (get_user_id_from_auth_id s) auth_ids"
  by (simp add: get_multi_auth_ids_from_user_ids_def get_multi_user_ids_from_auth_ids_def
      get_multi_map get_auth_id_from_user_id_def get_user_id_from_auth_id_def get_by_gae_id_def)

theorem batched_lookups_witness:
  "get_multi_auth_ids_from_user_ids one_pair [''u1'', ''u2''] = [Some ''a1'', None]
   \<and> get_multi_user_ids_from_auth_ids one_pair [''a2'', ''a1''] = [None, Some ''u1'']"
  using batched_lookups [of one_pair "[''u1'', ''u2'']" "[''a2'', ''a1'']"]
  by (simp add: one_pair_def lookup_defs)

section \<open>Session cookies\<close>

text \<open>
  C7. Whatever the response held, destroying the session raises nothing and appends
  exactly three \<open>Set-Cookie\<close> headers, for \<open>ACSID\<close>, \<open>SACSID\<close> and
  \<open>dev_appserver_login\<close> in this order, each with an empty value and an \<open>expires\<close>
  attribute that is the clock reading of its iteration less one day, that is less
  24 * 60 * 60 * 1000000 microseconds, formatted with \<open>%a, %d %b %Y %H:%M:%S GMT\<close>;
  that instant is strictly before the reading.
\<close>

theorem session_destroyed:
  "destroy_auth_session strftime utcnow r =
     (None, r\<lparr>headers := headers r @
        [(''Set-Cookie'',
          ''ACSID=; expires=''
            @ strftime (utcnow 0 - 24 * 60 * 60 * 1000000) ''%a, %d %b %Y %H:%M:%S GMT''),
         (''Set-Cookie'',
          ''SACSID=; expires=''
            @ strftime (utcnow 1 - 24 * 60 * 60 * 1000000) ''%a, %d %b %Y %H:%M:%S GMT''),
         (''Set-Cookie'',
          ''dev_appserver_login=; expires=''
            @ strftime (utcnow 2 - 24 * 60 * 60 * 1000000) ''%a, %d %b %Y %H:%M:%S GMT'')]\<rparr>)
   \<and> (\<forall>k. utcnow k - 24 * 60 * 60 * 1000000 < utcnow k)"
  by (simp add: destroy_auth_session_def cookie_output_def split_1_def add_header_def
      timedelta_def numeral_2_eq_2 numeral_eq_Suc)

text \<open>
  In the witness \<open>strftime\<close> tells the instants apart: the readings are one day and
  zero, one and two microseconds, and the three attributes name the instants zero, one
  and two.
\<close>

theorem session_destroyed_witness:
  "destroy_auth_session
     (\<lambda>t f. if t = 0 then ''zero'' else if t = 1 then ''one'' else if t = 2 then ''two'' else f)
     (\<lambda>k. 86400000000 + int k) \<lparr>headers = [(''X'', ''y'')]\<rparr> =
     (None, \<lparr>headers =
        [(''X'', ''y''),
         (''Set-Cookie'', ''ACSID=; expires=zero''),
         (''Set-Cookie'', ''SACSID=; expires=one''),
         (''Set-Cookie'', ''dev_appserver_login=; expires=two'')]\<rparr>)"
  using session_destroyed
    [of "\<lambda>t f. if t = 0 then ''zero'' else if t = 1 then ''one'' else if t = 2 then ''two'' else f"
        "\<lambda>k. 86400000000 + int k" "\<lparr>headers = [(''X'', ''y'')]\<rparr>"]
  by simp

section \<open>Batched association\<close>

lemma put_multi_Nil: "put_multi kind [] = kind"
  by (simp add: put_multi_def)

lemma put_multi_Cons: "put_multi kind (e # es) = put_multi (put kind e) es"
  by (simp add: put_multi_def)

lemma get_by_id_put_multi_notin:
  "k \<notin> fst ` set es \<Longrightarrow> get_by_id (put_multi kind es) k = get_by_id kind k"
  by (induction es arbitrary: kind) (auto simp: put_multi_Nil put_multi_Cons get_by_id_put)

lemma get_by_id_put_multi_in:
  "k \<in> fst ` set es \<Longrightarrow> \<exists>m. (k, m) \<in> set es \<and> get_by_id (put_multi kind es) k = Some m"
proof (induction es arbitrary: kind)
  case Nil
  then show ?case by simp
next
  case (Cons e es)
  show ?case
  proof (cases "k \<in> fst ` set es")
    case True
    from Cons.IH [OF True, of "put kind e"] show ?thesis
      by (auto simp: put_multi_Cons)
  next
    case False
    with Cons.prems have "k = fst e" by auto
    with False show ?thesis
      by (cases e) (simp add: put_multi_Cons get_by_id_put_multi_notin get_by_id_put)
  qed
qed

lemma collisions_map:
  "collisions (map f ps) (map (g \<circ> f) ps)
     = List.map_filter (\<lambda>p. map_option (Pair (f p)) (g (f p))) ps"
  by (induction ps) (auto simp: collisions_def List.map_filter_simps split: option.splits)

lemma update_timestamps_comp: "update_timestamps \<circ> f = f"
  by (simp add: fun_eq_iff update_timestamps_def)

lemma zip_fst_snd: "zip (map fst ps) (map snd ps) = ps"
  by (induction ps) auto

lemma zip3_filter_map:
  "map (\<lambda>(a, u, m). F u a)
     (filter (\<lambda>(a, u, m). Q m) (zip (map fst ps) (zip (map snd ps) (map (g \<circ> snd) ps))))
   = map (\<lambda>(a, u). F u a) (filter (\<lambda>(a, u). Q (g u)) ps)"
  by (induction ps) auto

lemma no_collision_get:
  "get_auth_id_from_user_id s u = None
     \<longleftrightarrow> (get (user_auth_details s) u = None \<or> gae_id (the (get (user_auth_details s) u)) = None)"
  by (auto simp: get_auth_id_from_user_id_def split: option.splits)

lemma multi_success:
  assumes "ps \<noteq> []" and "\<forall>p\<in>set ps. \<not> collides s p"
  shows "associate_multi_auth_ids_with_user_ids s ps =
    (None, s\<lparr>user_identifiers :=
                put_multi (user_identifiers s) (map (\<lambda>(a, u). UserIdentifiersModel a u) ps),
             user_auth_details :=
                put_multi (user_auth_details s) (map (\<lambda>(a, u). UserAuthDetailsModel u a) ps)\<rparr>)"
proof -
  have a: "\<not> list_ex (\<lambda>c. c \<noteq> None) (get_multi_user_ids_from_auth_ids s (map fst ps))"
    using assms(2)
    by (auto simp: list_ex_iff collides_def get_multi_user_ids_from_auth_ids_def get_multi_map
        get_user_id_from_auth_id_def get_by_gae_id_def split: option.splits)
  have b: "\<not> list_ex (\<lambda>c. c \<noteq> None) (get_multi_auth_ids_from_user_ids s (map snd ps))"
    using assms(2)
    by (auto simp: list_ex_iff collides_def get_multi_auth_ids_from_user_ids_def get_multi_map
        get_auth_id_from_user_id_def split: option.splits)
  have keep: "filter (\<lambda>(a, u). get (user_auth_details s) u = None
                \<or> gae_id (the (get (user_auth_details s) u)) = None) ps = ps"
    using assms(2) by (auto simp: filter_id_conv collides_def no_collision_get)
  have c: "map (\<lambda>(aid, uid, m). UserAuthDetailsModel uid aid)
             (filter (\<lambda>(aid, uid, m). m = None \<or> gae_id (the m) = None)
               (zip (map fst ps) (zip (map snd ps)
                  (map (get (user_auth_details s) \<circ> snd) ps))))
           = map (\<lambda>(a, u). UserAuthDetailsModel u a) ps"
    using zip3_filter_map [of UserAuthDetailsModel "\<lambda>m. m = None \<or> gae_id (the m) = None"
        ps "get (user_auth_details s)"]
    by (simp add: keep)
  have c2: "filter (\<lambda>(aid, uid, m). m = None \<or> gae_id (the m) = None)
               (zip (map fst ps) (zip (map snd ps)
                  (map (get (user_auth_details s) \<circ> snd) ps))) \<noteq> []"
  proof
    assume "filter (\<lambda>(aid, uid, m). m = None \<or> gae_id (the m) = None)
               (zip (map fst ps) (zip (map snd ps)
                  (map (get (user_auth_details s) \<circ> snd) ps))) = []"
    with c have "map (\<lambda>(a, u). UserAuthDetailsModel u a) ps = []" by simp
    with assms(1) show False by simp
  qed
  show ?thesis
    using assms(1) a b c2
    by (simp add: associate_multi_auth_ids_with_user_ids_def Let_def get_multi_map c zip_fst_snd
        update_timestamps_multi_def update_timestamps_comp)
qed

lemma multi_success_iff:
  "fst (associate_multi_auth_ids_with_user_ids s ps) = None
     \<longleftrightarrow> ps \<noteq> [] \<and> (\<forall>p\<in>set ps. \<not> collides s p)"
proof
  assume ok: "fst (associate_multi_auth_ids_with_user_ids s ps) = None"
  then have ne: "ps \<noteq> []"
    by (auto simp: associate_multi_auth_ids_with_user_ids_def)
  from ok ne have a: "\<not> list_ex (\<lambda>c. c \<noteq> None) (get_multi_user_ids_from_auth_ids s (map fst ps))"
    by (auto simp: associate_multi_auth_ids_with_user_ids_def Let_def split: if_splits)
  from ok ne a have b: "\<not> list_ex (\<lambda>c. c \<noteq> None) (get_multi_auth_ids_from_user_ids s (map snd ps))"
    by (auto simp: associate_multi_auth_ids_with_user_ids_def Let_def split: if_splits)
  have "\<forall>p\<in>set ps. \<not> collides s p"
  proof
    fix p assume p: "p \<in> set ps"
    from a p have "get_user_id_from_auth_id s (fst p) = None"
      by (auto simp: list_ex_iff get_multi_user_ids_from_auth_ids_def get_multi_map
          get_user_id_from_auth_id_def get_by_gae_id_def split: option.splits)
    moreover from b p have "get_auth_id_from_user_id s (snd p) = None"
      by (force simp: list_ex_iff get_multi_auth_ids_from_user_ids_def get_multi_map
          get_auth_id_from_user_id_def split: option.splits)
    ultimately show "\<not> collides s p" by (simp add: collides_def)
  qed
  with ne show "ps \<noteq> [] \<and> (\<forall>p\<in>set ps. \<not> collides s p)" by simp
next
  assume "ps \<noteq> [] \<and> (\<forall>p\<in>set ps. \<not> collides s p)"
  then show "fst (associate_multi_auth_ids_with_user_ids s ps) = None"
    by (simp add: multi_success)
qed

lemma each_success:
  assumes "distinct (map fst ps)" and "distinct (map snd ps)"
    and "\<forall>p\<in>set ps. \<not> collides s p"
  shows "associate_each s ps =
    (None, s\<lparr>user_identifiers :=
                put_multi (user_identifiers s) (map (\<lambda>(a, u). UserIdentifiersModel a u) ps),
             user_auth_details :=
                put_multi (user_auth_details s) (map (\<lambda>(a, u). UserAuthDetailsModel u a) ps)\<rparr>)"
  using assms
proof (induction ps arbitrary: s)
  case Nil
  then show ?case by (simp add: put_multi_Nil)
next
  case (Cons p ps)
  obtain a u where p: "p = (a, u)" by (cases p)
  let ?s1 = "s\<lparr>user_identifiers := put (user_identifiers s) (UserIdentifiersModel a u),
               user_auth_details := put (user_auth_details s) (UserAuthDetailsModel u a)\<rparr>"
  from Cons.prems(3) p
  have pre: "get_user_id_from_auth_id s a = None" "get_auth_id_from_user_id s u = None"
    by (simp_all add: collides_def)
  have step: "associate_auth_id_with_user_id s p = (None, ?s1)"
    using assoc_success [OF pre] p by simp
  have free: "\<forall>q\<in>set ps. \<not> collides ?s1 q"
  proof
    fix q assume q: "q \<in> set ps"
    with Cons.prems(1,2) p have ne: "fst q \<noteq> a" "snd q \<noteq> u" by auto
    from Cons.prems(3) q have "\<not> collides s q" by simp
    with ne show "\<not> collides ?s1 q"
      by (simp add: collides_def get_user_id_from_auth_id_def get_auth_id_from_user_id_def
          get_by_gae_id_def get_by_id_put get_put UserIdentifiersModel_def
          UserAuthDetailsModel_def)
  qed
  from Cons.prems(1,2) have d: "distinct (map fst ps)" "distinct (map snd ps)" by simp_all
  show ?case
    using Cons.IH [OF d free] step p
    by (simp add: put_multi_Cons)
qed

text \<open>
  C3. When some pair of the batch collides, the batch raises and leaves the datastore as
  it was. The exception lists, in batch order, every pair whose auth ID is already
  associated, with the user ID found; when no auth ID is associated it lists every pair
  whose user ID is already associated, with the auth ID found. Both checks read the
  datastore as it was before the call.
\<close>

theorem batch_collision:
  assumes "p \<in> set ps" and "collides s p"
  shows "associate_multi_auth_ids_with_user_ids s ps =
    (Some (if list_ex (\<lambda>q. get_user_id_from_auth_id s (fst q) \<noteq> None) ps
           then AuthIdsAlreadyAssociated
                  (List.map_filter
                     (\<lambda>q. map_option (Pair (fst q)) (get_user_id_from_auth_id s (fst q))) ps)
           else UserIdsAlreadyAssociated
                  (List.map_filter
                     (\<lambda>q. map_option (Pair (snd q)) (get_auth_id_from_user_id s (snd q))) ps)),
     s)"
proof -
  from assms(1) have ne: "ps \<noteq> []" by auto
  have users: "get_multi_user_ids_from_auth_ids s (map fst ps)
                 = map (get_user_id_from_auth_id s) (map fst ps)"
    by (simp add: get_multi_user_ids_from_auth_ids_def get_multi_map
        get_user_id_from_auth_id_def get_by_gae_id_def)
  have auths: "get_multi_auth_ids_from_user_ids s (map snd ps)
                 = map (get_auth_id_from_user_id s) (map snd ps)"
    by (simp add: get_multi_auth_ids_from_user_ids_def get_multi_map
        get_auth_id_from_user_id_def)
  show ?thesis
  proof (cases "list_ex (\<lambda>q. get_user_id_from_auth_id s (fst q) \<noteq> None) ps")
    case True
    then have "list_ex (\<lambda>c. c \<noteq> None) (map (get_user_id_from_auth_id s) (map fst ps))"
      by (auto simp: list_ex_iff)
    with True ne show ?thesis
      by (simp add: associate_multi_auth_ids_with_user_ids_def Let_def users collisions_map)
  next
    case False
    then have a: "\<not> list_ex (\<lambda>c. c \<noteq> None) (map (get_user_id_from_auth_id s) (map fst ps))"
      by (auto simp: list_ex_iff)
    from False assms have "get_auth_id_from_user_id s (snd p) \<noteq> None"
      by (auto simp: list_ex_iff collides_def)
    with assms(1) have b: "list_ex (\<lambda>c. c \<noteq> None) (map (get_auth_id_from_user_id s) (map snd ps))"
      by (auto simp: list_ex_iff)
    from False ne a b show ?thesis
      by (simp add: associate_multi_auth_ids_with_user_ids_def Let_def users auths collisions_map)
  qed
qed

lemmas batch_defs =
  associate_multi_auth_ids_with_user_ids_def get_multi_user_ids_from_auth_ids_def
  get_multi_auth_ids_from_user_ids_def get_multi_def collisions_def put_multi_def
  update_timestamps_multi_def List.map_filter_simps

theorem batch_collision_witness:
  "(''a1'', ''u1'') \<in> set [(''a1'', ''u1''), (''a2'', ''u2'')]
   \<and> collides two_collisions (''a1'', ''u1'')
   \<and> associate_multi_auth_ids_with_user_ids two_collisions [(''a1'', ''u1''), (''a2'', ''u2'')]
       = (Some (AuthIdsAlreadyAssociated [(''a1'', ''u9'')]), two_collisions)"
proof -
  have h1: "(''a1'', ''u1'') \<in> set [(''a1'', ''u1''), (''a2'', ''u2'')]" by simp
  have h2: "collides two_collisions (''a1'', ''u1'')"
    by (simp add: collides_def two_collisions_def lookup_defs)
  show ?thesis
    using h1 h2 batch_collision [OF h1 h2]
    by (simp add: two_collisions_def lookup_defs List.map_filter_simps)
qed

text \<open>
  C3, as the claim states it, fails: in a batch where one pair collides on its auth ID
  and another only on its user ID, the exception does not list the second pair.
\<close>

theorem batch_collision_listing_counterexample:
  "collides two_collisions (''a2'', ''u2'')
   \<and> associate_multi_auth_ids_with_user_ids two_collisions [(''a1'', ''u1''), (''a2'', ''u2'')]
       = (Some (AuthIdsAlreadyAssociated [(''a1'', ''u9'')]), two_collisions)
   \<and> \<not> lists_pair (AuthIdsAlreadyAssociated [(''a1'', ''u9'')]) (''a2'', ''u2'')"
  by (simp add: collides_def two_collisions_def lookup_defs batch_defs Let_def)

text \<open>
  C4. For a batch whose auth IDs are pairwise distinct, whose user IDs are pairwise
  distinct and none of whose pairs collides with the datastore, the batch leaves the
  same datastore as the associations made one after the other, and none of these
  raises. The batch raises nothing either unless it is empty; the empty batch fails to
  unpack before any write.
\<close>

theorem batch_equals_sequence:
  assumes "distinct (map fst ps)" and "distinct (map snd ps)"
    and "\<forall>p\<in>set ps. \<not> collides s p"
  shows "snd (associate_multi_auth_ids_with_user_ids s ps) = snd (associate_each s ps)
       \<and> fst (associate_each s ps) = None
       \<and> fst (associate_multi_auth_ids_with_user_ids s ps)
           = (if ps = [] then Some ValueError else None)"
proof (cases "ps = []")
  case True
  then show ?thesis
    by (simp add: associate_multi_auth_ids_with_user_ids_def)
next
  case False
  from multi_success [OF False assms(3)] each_success [OF assms] False
  show ?thesis by simp
qed

theorem batch_equals_sequence_witness:
  "distinct (map fst [(''a1'', ''u1''), (''a2'', ''u2'')])
   \<and> distinct (map snd [(''a1'', ''u1''), (''a2'', ''u2'')])
   \<and> \<not> collides user_side_only (''a1'', ''u1'')
   \<and> \<not> collides user_side_only (''a2'', ''u2'')
   \<and> snd (associate_multi_auth_ids_with_user_ids user_side_only [(''a1'', ''u1''), (''a2'', ''u2'')])
       = snd (associate_each user_side_only [(''a1'', ''u1''), (''a2'', ''u2'')])
   \<and> fst (associate_each user_side_only [(''a1'', ''u1''), (''a2'', ''u2'')]) = None
   \<and> fst (associate_multi_auth_ids_with_user_ids user_side_only [(''a1'', ''u1''), (''a2'', ''u2'')])
       = None"
proof -
  have h1: "distinct (map fst [(''a1'', ''u1''), (''a2'', ''u2'')])" by simp
  have h2: "distinct (map snd [(''a1'', ''u1''), (''a2'', ''u2'')])" by simp
  have c1: "\<not> collides user_side_only (''a1'', ''u1'')"
    by (simp add: collides_def user_side_only_def lookup_defs)
  have c2: "\<not> collides user_side_only (''a2'', ''u2'')"
    by (simp add: collides_def user_side_only_def lookup_defs)
  from c1 c2 have h3: "\<forall>p\<in>set [(''a1'', ''u1''), (''a2'', ''u2'')]. \<not> collides user_side_only p"
    by simp
  show ?thesis
    using h1 h2 c1 c2 batch_equals_sequence [OF h1 h2 h3] by simp
qed

text \<open>
  C9. When the user's model exists with a null auth ID and the association succeeds,
  the model stored for the user afterwards is the freshly constructed one: it holds the
  auth ID, and \<open>deleted\<close> and \<open>parent_user_id\<close> have their defaults whatever the
  earlier model held. The batch does the same for each of its pairs; when a user ID
  occurs in several pairs the auth ID stored is that of one of them.
\<close>

theorem fresh_user_auth_details:
  assumes "get_by_id (user_auth_details s) uid = Some r" and "gae_id r = None"
  shows "(associate_auth_id_with_user_id s (aid, uid) = (None, s')
           \<longrightarrow> get_by_id (user_auth_details s') uid
                 = Some \<lparr>deleted = False, gae_id = Some aid, parent_user_id = None\<rparr>)
       \<and> (associate_multi_auth_ids_with_user_ids s ps = (None, s'') \<and> (aid, uid) \<in> set ps
           \<longrightarrow> (\<exists>a. (a, uid) \<in> set ps
                  \<and> get_by_id (user_auth_details s'') uid
                      = Some \<lparr>deleted = False, gae_id = Some a, parent_user_id = None\<rparr>
                  \<and> (distinct (map snd ps) \<longrightarrow> a = aid)))"
proof (intro conjI impI)
  assume ok: "associate_auth_id_with_user_id s (aid, uid) = (None, s')"
  then have pre: "get_user_id_from_auth_id s aid = None" "get_auth_id_from_user_id s uid = None"
    using assoc_success_iff [of s aid uid] by simp_all
  from assoc_success [OF pre] ok
  show "get_by_id (user_auth_details s') uid
          = Some \<lparr>deleted = False, gae_id = Some aid, parent_user_id = None\<rparr>"
    by (auto simp: get_by_id_put UserAuthDetailsModel_def)
next
  assume "associate_multi_auth_ids_with_user_ids s ps = (None, s'') \<and> (aid, uid) \<in> set ps"
  then have ok: "associate_multi_auth_ids_with_user_ids s ps = (None, s'')"
    and mem: "(aid, uid) \<in> set ps" by simp_all
  from ok have "ps \<noteq> [] \<and> (\<forall>p\<in>set ps. \<not> collides s p)"
    using multi_success_iff [of s ps] by simp
  then have "associate_multi_auth_ids_with_user_ids s ps =
    (None, s\<lparr>user_identifiers :=
                put_multi (user_identifiers s) (map (\<lambda>(a, u). UserIdentifiersModel a u) ps),
             user_auth_details :=
                put_multi (user_auth_details s) (map (\<lambda>(a, u). UserAuthDetailsModel u a) ps)\<rparr>)"
    by (simp add: multi_success)
  with ok have s'': "user_auth_details s''
      = put_multi (user_auth_details s) (map (\<lambda>(a, u). UserAuthDetailsModel u a) ps)"
    by auto
  from mem have "uid \<in> fst ` set (map (\<lambda>(a, u). UserAuthDetailsModel u a) ps)"
    by (force simp: UserAuthDetailsModel_def)
  then have "\<exists>m. (uid, m) \<in> set (map (\<lambda>(a, u). UserAuthDetailsModel u a) ps)
         \<and> get_by_id (user_auth_details s'') uid = Some m"
    unfolding s'' by (rule get_by_id_put_multi_in)
  then obtain m where m: "(uid, m) \<in> set (map (\<lambda>(a, u). UserAuthDetailsModel u a) ps)"
    "get_by_id (user_auth_details s'') uid = Some m"
    by blast
  from m(1) obtain a where a: "(a, uid) \<in> set ps"
    "m = \<lparr>deleted = False, gae_id = Some a, parent_user_id = None\<rparr>"
    by (auto simp: UserAuthDetailsModel_def)
  have "distinct (map snd ps) \<longrightarrow> a = aid"
  proof
    assume d: "distinct (map snd ps)"
    have "distinct (map fst (map prod.swap ps))"
      using d by (simp add: comp_def)
    moreover from a(1) mem have "(uid, a) \<in> set (map prod.swap ps)" "(uid, aid) \<in> set (map prod.swap ps)"
      by force+
    ultimately show "a = aid"
      by (rule eq_key_imp_eq_value)
  qed
  with a m(2) show "\<exists>a. (a, uid) \<in> set ps
                  \<and> get_by_id (user_auth_details s'') uid
                      = Some \<lparr>deleted = False, gae_id = Some a, parent_user_id = None\<rparr>
                  \<and> (distinct (map snd ps) \<longrightarrow> a = aid)"
    by blast
qed

theorem fresh_user_auth_details_witness:
  "get_by_id (user_auth_details user_side_only) ''u1''
     = Some \<lparr>deleted = False, gae_id = None, parent_user_id = Some ''p1''\<rparr>
   \<and> (\<exists>s'. associate_auth_id_with_user_id user_side_only (''a1'', ''u1'') = (None, s')
         \<and> get_by_id (user_auth_details s') ''u1''
             = Some \<lparr>deleted = False, gae_id = Some ''a1'', parent_user_id = None\<rparr>)
   \<and> (\<exists>s''. associate_multi_auth_ids_with_user_ids user_side_only [(''a1'', ''u1'')] = (None, s'')
         \<and> get_by_id (user_auth_details s'') ''u1''
             = Some \<lparr>deleted = False, gae_id = Some ''a1'', parent_user_id = None\<rparr>)"
proof -
  let ?r = "\<lparr>deleted = False, gae_id = None, parent_user_id = Some ''p1''\<rparr>"
  let ?t = "\<lparr>user_identifiers = [(''a1'', \<lparr>deleted = False, user_id = ''u1''\<rparr>)],
            user_auth_details =
              [(''u1'', \<lparr>deleted = False, gae_id = Some ''a1'', parent_user_id = None\<rparr>)]\<rparr>"
  have h1: "get_by_id (user_auth_details user_side_only) ''u1'' = Some ?r"
    by (simp add: user_side_only_def get_by_id_def)
  have h2: "gae_id ?r = None" by simp
  have h3: "associate_auth_id_with_user_id user_side_only (''a1'', ''u1'') = (None, ?t)"
    by (simp add: associate_auth_id_with_user_id_def Let_def user_side_only_def
        lookup_defs write_defs)
  have h4: "associate_multi_auth_ids_with_user_ids user_side_only [(''a1'', ''u1'')] = (None, ?t)"
    by (simp add: batch_defs Let_def user_side_only_def lookup_defs write_defs)
  show ?thesis
    using h1 h3 h4
      fresh_user_auth_details [OF h1 h2, of "''a1''" ?t "[(''a1'', ''u1'')]" ?t]
    by simp
qed

section \<open>Deletion through the reverse query\<close>

text \<open>
  C10 fails on the code. In \<open>two_auth\<close> the user \<open>u1\<close> has no model of its own and
  the entities of \<open>a1\<close> and \<open>a2\<close> both hold \<open>u1\<close>. The reverse query returns the
  entity of \<open>a1\<close> alone: the call tombstones it and leaves the entity of \<open>a2\<close> as it
  was, not tombstoned, although it holds the user ID. The same happens with datastores
  that the module's own operations leave: after the batch association of \<open>a1\<close>, \<open>a2\<close>
  and \<open>a3\<close> with \<open>u1\<close> and one deletion of \<open>u1\<close>, the user's model is hidden, and
  the next deletion tombstones the entity of \<open>a1\<close> and leaves that of \<open>a2\<close>.
\<close>

theorem reverse_query_leaves_second_live:
  "get (user_auth_details two_auth) ''u1'' = None
   \<and> get_by_id (user_identifiers two_auth) ''a2'' = Some \<lparr>deleted = False, user_id = ''u1''\<rparr>
   \<and> fst (mark_user_for_deletion two_auth ''u1'') = None
   \<and> get_by_id (user_identifiers (snd (mark_user_for_deletion two_auth ''u1''))) ''a1''
       = Some \<lparr>deleted = True, user_id = ''u1''\<rparr>
   \<and> get_by_id (user_identifiers (snd (mark_user_for_deletion two_auth ''u1''))) ''a2''
       = Some \<lparr>deleted = False, user_id = ''u1''\<rparr>
   \<and> associate_multi_auth_ids_with_user_ids empty_datastore
         [(''a1'', ''u1''), (''a2'', ''u1''), (''a3'', ''u1'')] = (None, three_for_one)
   \<and> mark_user_for_deletion three_for_one ''u1'' = (None, three_for_one_marked)
   \<and> get (user_auth_details three_for_one_marked) ''u1'' = None
   \<and> get_by_id (user_identifiers three_for_one_marked) ''a2''
       = Some \<lparr>deleted = False, user_id = ''u1''\<rparr>
   \<and> get_by_id (user_identifiers (snd (mark_user_for_deletion three_for_one_marked ''u1''))) ''a2''
       = Some \<lparr>deleted = False, user_id = ''u1''\<rparr>"
  by (simp add: mark_user_for_deletion_def get_nullable_def Let_def two_auth_def
      three_for_one_def three_for_one_marked_def empty_datastore_def lookup_defs
      get_by_user_id_def AList.delete_eq write_defs batch_defs)

section \<open>Repeated deletion\<close>

text \<open>
  C6 fails on the code, in two ways. The batch association of \<open>a1\<close> and \<open>a2\<close> with
  the same user \<open>u1\<close> on the empty datastore succeeds and leaves \<open>shared_user\<close>. The
  first deletion of \<open>u1\<close> tombstones the user's model and the entity of \<open>a2\<close>, which
  the model names, and leaves the entity of \<open>a1\<close> not tombstoned; the second deletion
  tombstones the entity of \<open>a1\<close>, a further change of state. And for a user whose model
  holds a null auth ID, as in \<open>user_side_only\<close>, the first deletion raises after it has
  tombstoned the user's model.
\<close>

theorem mark_twice_changes_state:
  "associate_multi_auth_ids_with_user_ids empty_datastore [(''a1'', ''u1''), (''a2'', ''u1'')]
     = (None, shared_user)
   \<and> mark_user_for_deletion shared_user ''u1'' = (None, shared_user_marked)
   \<and> get_by_id (user_identifiers shared_user_marked) ''a1''
       = Some \<lparr>deleted = False, user_id = ''u1''\<rparr>
   \<and> mark_user_for_deletion shared_user_marked ''u1'' = (None, shared_user_marked_twice)
   \<and> shared_user_marked_twice \<noteq> shared_user_marked
   \<and> mark_user_for_deletion user_side_only ''u1''
       = (Some NullKeyError,
          \<lparr>user_identifiers = [],
           user_auth_details =
             [(''u1'', \<lparr>deleted = True, gae_id = None, parent_user_id = Some ''p1''\<rparr>)]\<rparr>)"
  by (simp add: mark_user_for_deletion_def get_nullable_def Let_def shared_user_def
      shared_user_marked_def shared_user_marked_twice_def user_side_only_def
      empty_datastore_def lookup_defs get_by_user_id_def AList.delete_eq write_defs batch_defs)

end
